theory Spec2Isabelle
  imports Complex_Main "HOL-Library.Log_Nat"
begin

text \<open>
  A shallow embedding of the core of the browser-side data explorer: the numeric
  normalization of query results and the file-ingestion pipeline of
  \<^verbatim>\<open>src/lib/duckdb.ts\<close>, and the table registry, query execution and engine
  initialization of \<^verbatim>\<open>src/context/DuckDBContext.tsx\<close>.
\<close>

section \<open>JavaScript values\<close>

text \<open>
  A JavaScript number is an IEEE double: a rational, one of the two infinities, or NaN
  (negative zero is not distinguished from zero). A \<^verbatim>\<open>bigint\<close> is an unbounded
  integer. Values are the trees that a query result consists of: primitives, arrays, and
  plain objects, the latter given by their own entries in the order of
  \<^verbatim>\<open>Object.entries\<close>.
\<close>

datatype jsnum = Finite rat | PosInfinity | NegInfinity | NaN

datatype jsvalue =
    JUndefined
  | JNull
  | JBool bool
  | JNumber jsnum
  | JString string
  | JBigInt int
  | JArray "jsvalue list"
  | JObject "(string \<times> jsvalue) list"

text \<open>
  The keys of an object are pairwise distinct and none of them is \<^verbatim>\<open>__proto__\<close>, at
  every depth.
\<close>

fun wf_value :: "jsvalue \<Rightarrow> bool" where
  "wf_value (JArray xs) = list_all wf_value xs"
| "wf_value (JObject es) =
     (distinct (map fst es) \<and> ''__proto__'' \<notin> fst ` set es \<and> list_all (\<lambda>(k, v). wf_value v) es)"
| "wf_value _ = True"

subsection \<open>\<^verbatim>\<open>Number(bigint)\<close> and \<^verbatim>\<open>Number.isSafeInteger\<close>\<close>

text \<open>
  \<^verbatim>\<open>Number(data)\<close> on a bigint yields the double nearest to the integer, ties to the
  even significand. A non-negative integer below \<open>2^53\<close> is a double already; a larger
  one keeps its 53 leading bits \<open>q\<close> and is rounded on the remaining \<open>e\<close> bits.
  A magnitude that rounds to \<open>2^1024\<close> or more overflows to an infinity.
\<close>

definition round_half_even :: "int \<Rightarrow> int" where
  "round_half_even m =
     (if m < 2 ^ 53 then m
      else let e = nat (bitlen m) - 53;
               q = m div 2 ^ e;
               r = m mod 2 ^ e;
               q' = (if 2 * r > 2 ^ e \<or> (2 * r = 2 ^ e \<and> odd q) then q + 1 else q)
           in q' * 2 ^ e)"

definition Number_of_bigint :: "int \<Rightarrow> jsnum" where
  "Number_of_bigint n =
     (let m = round_half_even \<bar>n\<bar>
      in if 2 ^ 1024 \<le> m then (if n < 0 then NegInfinity else PosInfinity)
         else Finite (of_int (sgn n * m)))"

text \<open>
  \<^verbatim>\<open>Number.isSafeInteger\<close>: an integral double of magnitude at most
  \<^verbatim>\<open>Number.MAX_SAFE_INTEGER\<close> \<open>= 2^53 - 1\<close>.
\<close>

fun isSafeInteger :: "jsnum \<Rightarrow> bool" where
  "isSafeInteger (Finite r) = (of_int \<lfloor>r\<rfloor> = r \<and> \<bar>r\<bar> \<le> 9007199254740991)"
| "isSafeInteger _ = False"

subsection \<open>Decimal text of an integer\<close>

text \<open>
  \<^verbatim>\<open>data.toString()\<close> on a bigint, and the text of a counter in a template literal:
  the decimal digits, most significant first, after a minus sign for a negative integer.
\<close>

definition digit_char :: "int \<Rightarrow> char" where
  "digit_char d = ''0123456789'' ! nat d"

function digits :: "int \<Rightarrow> string" where
  "digits n = (if n < 10 then [digit_char n] else digits (n div 10) @ [digit_char (n mod 10)])"
  by pat_completeness auto
termination
  by (relation "measure nat") auto

declare digits.simps [simp del]

definition BigInt_toString :: "int \<Rightarrow> string" where
  "BigInt_toString n = (if n < 0 then CHR ''-'' # digits (- n) else digits n)"

text \<open>
  Reading a decimal text back, to state that the text determines the integer.
\<close>

definition digit_value :: "char \<Rightarrow> int" where
  "digit_value c = of_char c - 48"

definition digits_value :: "string \<Rightarrow> int" where
  "digits_value s = foldl (\<lambda>acc c. 10 * acc + digit_value c) 0 s"

definition decimal_value :: "string \<Rightarrow> int" where
  "decimal_value s =
     (case s of [] \<Rightarrow> 0
      | c # ds \<Rightarrow> if c = CHR ''-'' then - digits_value ds else digits_value s)"

section \<open>Numeric Normalization: \<^verbatim>\<open>convertBigIntValues\<close> (src/lib/duckdb.ts)\<close>

text \<open>
  \<^verbatim>\<open>converted[key] = v\<close> on a plain object. For an ordinary key, an existing entry keeps
  its place and takes the new value, and a new key is appended. The key \<^verbatim>\<open>__proto__\<close> is
  the exception: the assignment reaches the accessor that \<^verbatim>\<open>Object.prototype\<close> defines
  under that name, which replaces the prototype when the value is an object or null and
  does nothing otherwise. In neither case does the object get an entry of its own.
\<close>

fun own_property :: "(string \<times> 'v) list \<Rightarrow> string \<Rightarrow> 'v \<Rightarrow> (string \<times> 'v) list" where
  "own_property [] key v = [(key, v)]"
| "own_property ((k, w) # ps) key v =
     (if k = key then (k, v) # ps else (k, w) # own_property ps key v)"

definition set_property :: "(string \<times> 'v) list \<Rightarrow> string \<Rightarrow> 'v \<Rightarrow> (string \<times> 'v) list" where
  "set_property ps key v = (if key = ''__proto__'' then ps else own_property ps key v)"

text \<open>
  The function, branch by branch: a bigint; an array; a non-null object, rebuilt entry by
  entry from an empty object; anything else is returned as it is.
\<close>

fun convertBigIntValues :: "jsvalue \<Rightarrow> jsvalue" where
  "convertBigIntValues (JBigInt n) =
     (let numValue = Number_of_bigint n
      in if isSafeInteger numValue then JNumber numValue else JString (BigInt_toString n))"
| "convertBigIntValues (JArray xs) = JArray (map convertBigIntValues xs)"
| "convertBigIntValues (JObject es) =
     JObject (fold (\<lambda>(key, value) converted. set_property converted key (convertBigIntValues value)) es [])"
| "convertBigIntValues v = v"

text \<open>
  The elements of a value that the source takes for an array (a cast, erased when it runs).
\<close>

fun elements :: "jsvalue \<Rightarrow> jsvalue list" where
  "elements (JArray xs) = xs"
| "elements v = []"

text \<open>
  The normalization as the specification words it: a wide integer within the safe-integer
  range becomes the number of the same value, any other wide integer becomes its decimal
  text; sequences and keyed mappings keep their shape.
\<close>

fun normalize_spec :: "jsvalue \<Rightarrow> jsvalue" where
  "normalize_spec (JBigInt n) =
     (if - 9007199254740991 \<le> n \<and> n \<le> 9007199254740991
      then JNumber (Finite (of_int n)) else JString (BigInt_toString n))"
| "normalize_spec (JArray xs) = JArray (map normalize_spec xs)"
| "normalize_spec (JObject es) = JObject (map (\<lambda>(k, v). (k, normalize_spec v)) es)"
| "normalize_spec v = v"

section \<open>Strings and arrays of the host language\<close>

text \<open>
  Strings are sequences of characters; a character stands for one code unit of the
  source's strings. \<^verbatim>\<open>toLowerCase\<close> and the class \<^verbatim>\<open>[a-zA-Z0-9]\<close> are given on the
  ASCII letters and digits.
\<close>

definition is_alnum :: "char \<Rightarrow> bool" where
  "is_alnum c =
     (let n = (of_char c :: nat)
      in (48 \<le> n \<and> n \<le> 57) \<or> (65 \<le> n \<and> n \<le> 90) \<or> (97 \<le> n \<and> n \<le> 122))"

definition toLowerCase_char :: "char \<Rightarrow> char" where
  "toLowerCase_char c =
     (let n = (of_char c :: nat) in if 65 \<le> n \<and> n \<le> 90 then char_of (n + 32) else c)"

definition toLowerCase :: "string \<Rightarrow> string" where
  "toLowerCase s = map toLowerCase_char s"

text \<open>\<^verbatim>\<open>s.startsWith(p)\<close> and \<^verbatim>\<open>s.includes(p)\<close>.\<close>

fun startsWith :: "string \<Rightarrow> string \<Rightarrow> bool" where
  "startsWith s [] = True"
| "startsWith [] (p # ps) = False"
| "startsWith (c # cs) (p # ps) = (c = p \<and> startsWith cs ps)"

fun includes_str :: "string \<Rightarrow> string \<Rightarrow> bool" where
  "includes_str [] p = (p = [])"
| "includes_str (c # cs) p = (startsWith (c # cs) p \<or> includes_str cs p)"

text \<open>
  \<^verbatim>\<open>s.replace(p, '')\<close> with a string pattern: the first occurrence of \<open>p\<close> is removed.
\<close>

fun remove_first :: "string \<Rightarrow> string \<Rightarrow> string" where
  "remove_first [] p = []"
| "remove_first (c # cs) p =
     (if startsWith (c # cs) p then drop (length p) (c # cs) else c # remove_first cs p)"

text \<open>\<^verbatim>\<open>s.split('.').pop()\<close>: what follows the last dot, or all of \<open>s\<close> without a dot.\<close>

definition last_segment :: "string \<Rightarrow> string" where
  "last_segment s = rev (takeWhile (\<lambda>c. c \<noteq> CHR ''.'') (rev s))"

text \<open>
  An array may have holes (indices below its length that hold no element):
  \<^verbatim>\<open>map\<close> does not call its function on a hole and leaves the hole in the result,
  \<^verbatim>\<open>join\<close> writes a hole as the empty text, \<^verbatim>\<open>indexOf\<close> passes over holes, compares
  with strict equality (given as \<open>eq\<close>) and answers \<open>-1\<close> when it finds no element.
\<close>

datatype 'a slot = Hole | Elem 'a

fun map_slot :: "('a \<Rightarrow> 'b) \<Rightarrow> 'a slot \<Rightarrow> 'b slot" where
  "map_slot f Hole = Hole"
| "map_slot f (Elem x) = Elem (f x)"

definition array_map :: "('a \<Rightarrow> 'b) \<Rightarrow> 'a slot list \<Rightarrow> 'b slot list" where
  "array_map f xs = map (map_slot f) xs"

fun slot_text :: "string slot \<Rightarrow> string" where
  "slot_text Hole = []"
| "slot_text (Elem s) = s"

fun join :: "string slot list \<Rightarrow> string \<Rightarrow> string" where
  "join [] sep = []"
| "join [x] sep = slot_text x"
| "join (x # y # ys) sep = slot_text x @ sep @ join (y # ys) sep"

fun indexOf_from :: "('a \<Rightarrow> 'a \<Rightarrow> bool) \<Rightarrow> 'a slot list \<Rightarrow> 'a \<Rightarrow> int \<Rightarrow> int" where
  "indexOf_from eq [] x i = - 1"
| "indexOf_from eq (Hole # ys) x i = indexOf_from eq ys x (i + 1)"
| "indexOf_from eq (Elem y # ys) x i = (if eq y x then i else indexOf_from eq ys x (i + 1))"

definition indexOf :: "('a \<Rightarrow> 'a \<Rightarrow> bool) \<Rightarrow> 'a slot list \<Rightarrow> 'a \<Rightarrow> int" where
  "indexOf eq xs x = indexOf_from eq xs x 0"

section \<open>Table name derivation: \<^verbatim>\<open>generateTableName\<close> (src/context/DuckDBContext.tsx)\<close>

record TableInfo =
  name :: string
  fileType :: string
  fileName :: string

text \<open>
  \<^verbatim>\<open>fileName.replace(`.${ext}`, '').replace(/[^a-zA-Z0-9]/g, '_')\<close> and
  \<^verbatim>\<open>`file_${ext}_${baseName}`\<close>.
\<close>

definition baseName_of :: "string \<Rightarrow> string \<Rightarrow> string" where
  "baseName_of fileNm ext =
     map (\<lambda>c. if is_alnum c then c else CHR ''_'') (remove_first fileNm (CHR ''.'' # ext))"

definition tableName_of :: "string \<Rightarrow> string \<Rightarrow> string" where
  "tableName_of fileNm ext = ''file_'' @ ext @ ''_'' @ baseName_of fileNm ext"

text \<open>
  The loop \<^verbatim>\<open>while (tables.some(t => t.name === finalName))\<close>, with its two variables
  \<^verbatim>\<open>finalName\<close> and \<^verbatim>\<open>counter\<close>. The counter is a natural number (the loop would need
  \<open>2^53\<close> registered tables for the counter to leave the exact range of a double).
\<close>

definition candidate :: "string \<Rightarrow> nat \<Rightarrow> string" where
  "candidate tableNm counter = tableNm @ ''_'' @ digits (int counter)"

function name_loop :: "string list \<Rightarrow> string \<Rightarrow> string \<Rightarrow> nat \<Rightarrow> string" where
  "name_loop names tableNm finalName counter =
     (if finalName \<in> set names
      then name_loop names tableNm (candidate tableNm counter) (counter + 1)
      else finalName)"
  by pat_completeness auto

definition generateTableName :: "TableInfo list \<Rightarrow> string \<Rightarrow> string \<Rightarrow> string" where
  "generateTableName tables fileNm ext =
     name_loop (map name tables) (tableName_of fileNm ext) (tableName_of fileNm ext) 1"

text \<open>\<^verbatim>\<open>file.name.split('.').pop()?.toLowerCase() || ''\<close>.\<close>

definition file_ext :: "string \<Rightarrow> string" where
  "file_ext fileNm = toLowerCase (last_segment fileNm)"

section \<open>The embedded engine, as the ingestion code uses it\<close>

text \<open>
  The analytical engine is an external collaborator of this code. This section fixes the
  part of its contract that the ingestion relies on: a catalog of tables, the creation of a
  table, the insertion of rows, and the conditions under which a statement is rejected. What
  the engine's readers make of a file's bytes is not derived here; it comes with the file.

  Everything thrown in this code is an \<^verbatim>\<open>Error\<close> with a message.
\<close>

datatype js_error = Error string

fun message :: "js_error \<Rightarrow> string" where
  "message (Error m) = m"

text \<open>
  A materialized table: its declared columns (name and type) and its rows, each row the
  texts of its values. The catalog lists the tables under their names; the engine compares
  identifiers without regard to case, so a table is listed under its name in lower case.
\<close>

record db_table =
  tcolumns :: "(string \<times> string) list"
  tdata :: "string list list"

type_synonym engine = "(string \<times> db_table) list"

definition table_key :: "string \<Rightarrow> string" where
  "table_key n = toLowerCase n"

definition has_table :: "engine \<Rightarrow> string \<Rightarrow> bool" where
  "has_table eng n = (table_key n \<in> set (map fst eng))"

definition lookup_table :: "engine \<Rightarrow> string \<Rightarrow> db_table option" where
  "lookup_table eng n = map_of eng (table_key n)"

definition store_table :: "engine \<Rightarrow> string \<Rightarrow> db_table \<Rightarrow> engine" where
  "store_table eng n tb =
     (if has_table eng n
      then map (\<lambda>(k, old). if k = table_key n then (k, tb) else (k, old)) eng
      else eng @ [(table_key n, tb)])"

text \<open>
  A cell of a parsed sheet. The code observes a number in three ways only: through the text
  that \<^verbatim>\<open>String\<close> prints for it, through its truth value and through strict equality.
  A numeric cell is therefore given by that text, which is \<^verbatim>\<open>0\<close> for both zeros,
  \<^verbatim>\<open>NaN\<close> for the one number that is unequal to itself, and differs for any two numbers
  that are not equal.
\<close>

datatype cell = CUndefined | CNull | CBool bool | CNumber string | CString string

definition strict_equals :: "cell \<Rightarrow> cell \<Rightarrow> bool" where
  "strict_equals x y = (x = y \<and> x \<noteq> CNumber ''NaN'')"

text \<open>
  A file, as the code and the engine's readers see it: its name; what the engine's
  delimited-text reader makes of it; for the columnar reader, the outcome of materializing
  a direct scan, the rows of the \<^verbatim>\<open>DESCRIBE\<close> result as \<^verbatim>\<open>toArray()\<close> yields them, and
  the rows of a scan; and what
  \<^verbatim>\<open>XLSX.utils.sheet_to_json(worksheet, { header: 1 })\<close> returns for the first sheet.
  These are produced by the engine and by the spreadsheet library, outside this code.
\<close>

record js_file =
  fname :: string
  csv_scan :: "js_error + db_table"
  parquet_direct :: "js_error + db_table"
  parquet_describe :: "js_error + jsvalue list"
  parquet_scan :: "js_error + string list list"
  sheet_to_json :: "js_error + cell slot list list"

text \<open>
  The statements that \<^verbatim>\<open>registerFileAsTable\<close> sends through \<^verbatim>\<open>conn.query\<close>, by their
  parts; \<open>sql_text\<close> is the text that the source builds for each. A column list and a
  value list are arrays joined by \<^verbatim>\<open>', '\<close>.
\<close>

datatype stmt =
    CreateTableAsCsv string js_file
  | CreateTableAsParquet string js_file
  | DescribeParquet js_file
  | CreateTable string "(string \<times> string) slot list"
  | InsertParquet string js_file
  | InsertValues string "string slot list"

definition column_sql :: "string \<times> string \<Rightarrow> string" where
  "column_sql c = [CHR 0x22] @ fst c @ [CHR 0x22] @ '' '' @ snd c"

fun sql_text :: "stmt \<Rightarrow> string" where
  "sql_text (CreateTableAsCsv t f) =
     ''CREATE TABLE '' @ t @ '' AS SELECT * FROM read_csv_auto('' @ [CHR 0x27] @ ''memory://''
       @ fname f @ [CHR 0x27] @ '')''"
| "sql_text (CreateTableAsParquet t f) =
     ''CREATE TABLE '' @ t @ '' AS SELECT * FROM parquet_scan('' @ [CHR 0x27] @ ''memory://''
       @ fname f @ [CHR 0x27] @ '')''"
| "sql_text (DescribeParquet f) =
     ''DESCRIBE parquet_scan('' @ [CHR 0x27] @ ''memory://'' @ fname f @ [CHR 0x27] @ '')''"
| "sql_text (CreateTable t cols) =
     ''CREATE TABLE '' @ t @ '' ('' @ join (array_map column_sql cols) '', '' @ '')''"
| "sql_text (InsertParquet t f) =
     ''INSERT INTO '' @ t @ '' SELECT * FROM (SELECT * FROM parquet_scan('' @ [CHR 0x27]
       @ ''memory://'' @ fname f @ [CHR 0x27] @ '')) t''"
| "sql_text (InsertValues t vals) =
     ''INSERT INTO '' @ t @ '' VALUES ('' @ join vals '', '' @ '')''"

text \<open>
  The engine's answer to a statement: an error, which leaves the engine as it was, or the
  result rows (of \<^verbatim>\<open>DESCRIBE\<close> only) and the engine afterwards. A table cannot be created
  under a name in use, without columns, with a missing or empty column name, or with two
  columns of one name; a row cannot be inserted into an absent table, with a missing
  value, or with a number of values other than the number of columns.
\<close>

fun elems :: "'a slot list \<Rightarrow> 'a list" where
  "elems [] = []"
| "elems (Hole # xs) = elems xs"
| "elems (Elem x # xs) = x # elems xs"

definition create_as :: "engine \<Rightarrow> string \<Rightarrow> js_error + db_table \<Rightarrow>
    js_error + (jsvalue list \<times> engine)" where
  "create_as eng t scan =
     (case scan of
        Inl e \<Rightarrow> Inl e
      | Inr tb \<Rightarrow>
          if has_table eng t
          then Inl (Error (''Catalog Error: Table with name '' @ t @ '' already exists!''))
          else Inr ([], store_table eng t tb))"

fun query :: "engine \<Rightarrow> stmt \<Rightarrow> js_error + (jsvalue list \<times> engine)" where
  "query eng (CreateTableAsCsv t f) = create_as eng t (csv_scan f)"
| "query eng (CreateTableAsParquet t f) = create_as eng t (parquet_direct f)"
| "query eng (DescribeParquet f) =
     (case parquet_describe f of Inl e \<Rightarrow> Inl e | Inr schemaResult \<Rightarrow> Inr (schemaResult, eng))"
| "query eng (CreateTable t cols) =
     (if cols = [] \<or> Hole \<in> set cols \<or> [] \<in> set (map fst (elems cols))
      then Inl (Error ''Parser Error: syntax error'')
      else if \<not> distinct (map (toLowerCase \<circ> fst) (elems cols))
      then Inl (Error ''Catalog Error: Column with that name already exists!'')
      else if has_table eng t
      then Inl (Error (''Catalog Error: Table with name '' @ t @ '' already exists!''))
      else Inr ([], store_table eng t \<lparr>tcolumns = elems cols, tdata = []\<rparr>))"
| "query eng (InsertParquet t f) =
     (case lookup_table eng t of
        None \<Rightarrow> Inl (Error (''Catalog Error: Table with name '' @ t @ '' does not exist!''))
      | Some tb \<Rightarrow>
          (case parquet_scan f of
             Inl e \<Rightarrow> Inl e
           | Inr rs \<Rightarrow>
               if list_all (\<lambda>r. length r = length (tcolumns tb)) rs
               then Inr ([], store_table eng t (tb\<lparr>tdata := tdata tb @ rs\<rparr>))
               else Inl (Error ''Binder Error: table and source column counts differ'')))"
| "query eng (InsertValues t vals) =
     (if Hole \<in> set vals then Inl (Error ''Parser Error: syntax error'')
      else case lookup_table eng t of
        None \<Rightarrow> Inl (Error (''Catalog Error: Table with name '' @ t @ '' does not exist!''))
      | Some tb \<Rightarrow>
          if length vals = length (tcolumns tb)
          then Inr ([], store_table eng t (tb\<lparr>tdata := tdata tb @ [elems vals]\<rparr>))
          else Inl (Error ''Binder Error: table and value counts differ''))"

section \<open>Ingestion: \<^verbatim>\<open>registerFileAsTable\<close> (src/lib/duckdb.ts)\<close>

subsection \<open>Columnar-binary fallback: the rewritten schema\<close>

text \<open>
  The fallback reads each row of the reported schema at the positions 0 and 1. Reading a
  position: of an array, the element or \<^verbatim>\<open>undefined\<close>; of an object, its entry under that
  number as a key, or \<^verbatim>\<open>undefined\<close>; of a string, the character; of \<^verbatim>\<open>undefined\<close> or
  \<^verbatim>\<open>null\<close>, a \<^verbatim>\<open>TypeError\<close>; of any other primitive, \<^verbatim>\<open>undefined\<close>.
\<close>

fun element_at :: "jsvalue \<Rightarrow> nat \<Rightarrow> js_error + jsvalue" where
  "element_at JUndefined i = Inl (Error ''TypeError: Cannot read properties of undefined'')"
| "element_at JNull i = Inl (Error ''TypeError: Cannot read properties of null'')"
| "element_at (JArray xs) i = Inr (if i < length xs then xs ! i else JUndefined)"
| "element_at (JObject es) i =
     Inr (case map_of es (digits (int i)) of None \<Rightarrow> JUndefined | Some v \<Rightarrow> v)"
| "element_at (JString s) i = Inr (if i < length s then JString [s ! i] else JUndefined)"
| "element_at v i = Inr JUndefined"

text \<open>
  \<^verbatim>\<open>columnType.includes(p)\<close>: the substring test of a string, the membership test of an
  array, and a \<^verbatim>\<open>TypeError\<close> on every value that has no such method.
\<close>

fun value_includes :: "jsvalue \<Rightarrow> string \<Rightarrow> js_error + bool" where
  "value_includes (JString s) p = Inr (includes_str s p)"
| "value_includes (JArray xs) p = Inr (JString p \<in> set xs)"
| "value_includes JUndefined p = Inl (Error ''TypeError: Cannot read properties of undefined'')"
| "value_includes JNull p = Inl (Error ''TypeError: Cannot read properties of null'')"
| "value_includes v p = Inl (Error ''TypeError: columnType.includes is not a function'')"

text \<open>
  The text that a template literal writes for a value. A number is written by its integer
  digits, which is its text when it is integer-valued and below \<open>10^21\<close>; the schema
  that the engine reports holds texts and nulls, and no number reaches a template here.
\<close>

fun number_text :: "jsnum \<Rightarrow> string" where
  "number_text (Finite r) = BigInt_toString \<lfloor>r\<rfloor>"
| "number_text PosInfinity = ''Infinity''"
| "number_text NegInfinity = ''-Infinity''"
| "number_text NaN = ''NaN''"

fun to_text :: "jsvalue \<Rightarrow> string" where
  "to_text JUndefined = ''undefined''"
| "to_text JNull = ''null''"
| "to_text (JBool b) = (if b then ''true'' else ''false'')"
| "to_text (JNumber x) = number_text x"
| "to_text (JString s) = s"
| "to_text (JBigInt n) = BigInt_toString n"
| "to_text (JArray xs) =
     join (map (\<lambda>x. Elem (if x = JUndefined \<or> x = JNull then [] else to_text x)) xs) '',''"
| "to_text (JObject es) = ''[object Object]''"

text \<open>
  One row of the reported schema becomes one column declaration:
  \<^verbatim>\<open>columnType.includes('BIGINT') || columnType.includes('HUGEINT')\<close> decides between the
  text type and the reported type. The casts of the source are erased when it runs.
\<close>

definition parquet_column :: "jsvalue \<Rightarrow> js_error + string \<times> string" where
  "parquet_column row =
     (case element_at row 0 of
        Inl e \<Rightarrow> Inl e
      | Inr columnName \<Rightarrow>
          (case element_at row 1 of
             Inl e \<Rightarrow> Inl e
           | Inr columnType \<Rightarrow>
               (case value_includes columnType ''BIGINT'' of
                  Inl e \<Rightarrow> Inl e
                | Inr big \<Rightarrow>
                    if big then Inr (to_text columnName, ''VARCHAR'')
                    else (case value_includes columnType ''HUGEINT'' of
                            Inl e \<Rightarrow> Inl e
                          | Inr huge \<Rightarrow>
                              if huge then Inr (to_text columnName, ''VARCHAR'')
                              else Inr (to_text columnName, to_text columnType)))))"

text \<open>
  \<^verbatim>\<open>rows.map(callback)\<close> with a callback that may throw: the first error ends the map.
\<close>

fun map_throwing :: "('a \<Rightarrow> js_error + 'b) \<Rightarrow> 'a list \<Rightarrow> js_error + 'b list" where
  "map_throwing g [] = Inr []"
| "map_throwing g (x # xs) =
     (case g x of
        Inl e \<Rightarrow> Inl e
      | Inr y \<Rightarrow> (case map_throwing g xs of Inl e \<Rightarrow> Inl e | Inr ys \<Rightarrow> Inr (y # ys)))"

subsection \<open>Spreadsheet: column declarations and value lists\<close>

text \<open>
  \<^verbatim>\<open>header || placeholder\<close> takes the placeholder for a falsy header; the template literal
  then writes the chosen value with \<^verbatim>\<open>String\<close>.
\<close>

fun truthy :: "cell \<Rightarrow> bool" where
  "truthy CUndefined = False"
| "truthy CNull = False"
| "truthy (CBool b) = b"
| "truthy (CNumber t) = (t \<noteq> ''0'' \<and> t \<noteq> ''NaN'')"
| "truthy (CString s) = (s \<noteq> [])"

fun String :: "cell \<Rightarrow> string" where
  "String CUndefined = ''undefined''"
| "String CNull = ''null''"
| "String (CBool b) = (if b then ''true'' else ''false'')"
| "String (CNumber t) = t"
| "String (CString s) = s"

definition header_column :: "cell slot list \<Rightarrow> cell \<Rightarrow> string \<times> string" where
  "header_column headers header =
     (if truthy header then String header
      else ''column_'' @ BigInt_toString (indexOf strict_equals headers header),
      ''VARCHAR'')"

definition excel_columns :: "cell slot list \<Rightarrow> (string \<times> string) slot list" where
  "excel_columns headers = array_map (header_column headers) headers"

text \<open>
  One value of a data row: \<^verbatim>\<open>NULL\<close> for null and undefined, and otherwise the text of the
  value between single quotes, every single quote in it doubled.
\<close>

definition escape_quotes :: "string \<Rightarrow> string" where
  "escape_quotes s = concat (map (\<lambda>c. if c = CHR 0x27 then [CHR 0x27, CHR 0x27] else [c]) s)"

definition value_sql :: "cell \<Rightarrow> string" where
  "value_sql v =
     (if v = CNull \<or> v = CUndefined then ''NULL''
      else [CHR 0x27] @ escape_quotes (String v) @ [CHR 0x27])"

text \<open>
  The value list of a row: the mapped cells, then \<^verbatim>\<open>NULL\<close> pushed while the list is
  shorter than the headers.
\<close>

definition row_values :: "cell slot list \<Rightarrow> cell slot list \<Rightarrow> string slot list" where
  "row_values headers row =
     (let values = array_map value_sql row
      in values @ replicate (length headers - length values) (Elem ''NULL''))"

text \<open>
  The loop over the data rows. Each function of this section returns the error thrown, if
  any, and the engine as the call leaves it. Registering the file handle with the engine
  (\<^verbatim>\<open>db.registerFileHandle\<close>) is taken to succeed; the statements then reach the file
  through its name.
\<close>

fun insert_rows :: "engine \<Rightarrow> string \<Rightarrow> cell slot list \<Rightarrow> cell slot list list \<Rightarrow>
    js_error option \<times> engine" where
  "insert_rows eng t headers [] = (None, eng)"
| "insert_rows eng t headers (row # rows) =
     (if length row > 0
      then (case query eng (InsertValues t (row_values headers row)) of
              Inl e \<Rightarrow> (Some e, eng)
            | Inr (_, eng') \<Rightarrow> insert_rows eng' t headers rows)
      else insert_rows eng t headers rows)"

definition register_csv :: "engine \<Rightarrow> js_file \<Rightarrow> string \<Rightarrow> js_error option \<times> engine" where
  "register_csv eng f t =
     (case query eng (CreateTableAsCsv t f) of
        Inl e \<Rightarrow> (Some e, eng)
      | Inr (_, eng') \<Rightarrow> (None, eng'))"

definition parquet_fallback :: "engine \<Rightarrow> js_file \<Rightarrow> string \<Rightarrow> js_error option \<times> engine" where
  "parquet_fallback eng f t =
     (case query eng (DescribeParquet f) of
        Inl e \<Rightarrow> (Some e, eng)
      | Inr (schemaResult, _) \<Rightarrow>
          (let schemaRows = elements (convertBigIntValues (JArray schemaResult))
           in case map_throwing parquet_column schemaRows of
                Inl e \<Rightarrow> (Some e, eng)
              | Inr columns \<Rightarrow>
                  (case query eng (CreateTable t (map Elem columns)) of
                     Inl e \<Rightarrow> (Some e, eng)
                   | Inr (_, eng1) \<Rightarrow>
                       (case query eng1 (InsertParquet t f) of
                          Inl e \<Rightarrow> (Some e, eng1)
                        | Inr (_, eng2) \<Rightarrow> (None, eng2)))))"

definition register_parquet :: "engine \<Rightarrow> js_file \<Rightarrow> string \<Rightarrow> js_error option \<times> engine" where
  "register_parquet eng f t =
     (case query eng (CreateTableAsParquet t f) of
        Inr (_, eng') \<Rightarrow> (None, eng')
      | Inl err \<Rightarrow> parquet_fallback eng f t)"

definition register_excel :: "engine \<Rightarrow> js_file \<Rightarrow> string \<Rightarrow> js_error option \<times> engine" where
  "register_excel eng f t =
     (case sheet_to_json f of
        Inl e \<Rightarrow> (Some e, eng)
      | Inr jsonData \<Rightarrow>
          (case jsonData of
             [] \<Rightarrow> (Some (Error ''Excel file is empty or could not be parsed''), eng)
           | headers # rows \<Rightarrow>
               (case query eng (CreateTable t (excel_columns headers)) of
                  Inl e \<Rightarrow> (Some e, eng)
                | Inr (_, eng1) \<Rightarrow> insert_rows eng1 t headers rows)))"

text \<open>
  The module keeps the engine and its connection in two variables that are set together;
  \<open>None\<close> stands for \<^verbatim>\<open>!db || !conn\<close>.
\<close>

definition registerFileAsTable :: "engine option \<Rightarrow> js_file \<Rightarrow> string \<Rightarrow>
    js_error option \<times> engine option" where
  "registerFileAsTable session f tableNm =
     (case session of
        None \<Rightarrow> (Some (Error ''DuckDB not initialized''), None)
      | Some eng \<Rightarrow>
          (let ext = toLowerCase (last_segment (fname f));
               r = (if ext = ''csv'' then register_csv eng f tableNm
                    else if ext = ''parquet'' then register_parquet eng f tableNm
                    else if ext = ''xlsx'' \<or> ext = ''xls'' then register_excel eng f tableNm
                    else (Some (Error ''Unsupported file type''), eng))
           in (fst r, Some (snd r))))"

section \<open>The provider: \<^verbatim>\<open>DuckDBProvider\<close> (src/context/DuckDBContext.tsx)\<close>

record QueryResult =
  columns :: "string list"
  rows :: "jsvalue list"

text \<open>The six state variables of the provider.\<close>

record provider_state =
  isInitialized :: bool
  isLoading :: bool
  error :: "string option"
  tables :: "TableInfo list"
  queryResult :: "QueryResult option"
  isQueryRunning :: bool

text \<open>
  Every render of the provider creates its functions anew, and a function reads the state
  variables of the render that created it: \<open>seen\<close> below. In \<^verbatim>\<open>registerFile\<close> these are
  \<^verbatim>\<open>isInitialized\<close> and, through \<^verbatim>\<open>generateTableName\<close>, the registry \<^verbatim>\<open>tables\<close>. The
  updates act on the state as it is when they run, \<open>st\<close> below: \<^verbatim>\<open>setError\<close> and
  \<^verbatim>\<open>setIsLoading\<close> overwrite, and \<^verbatim>\<open>setTables(prev => [...prev, newTable])\<close> appends to the
  current registry. The result is the state and the engine that the call leaves.
\<close>

definition registerFile :: "provider_state \<Rightarrow> provider_state \<Rightarrow> engine option \<Rightarrow> js_file \<Rightarrow>
    provider_state \<times> engine option" where
  "registerFile seen st session f =
     (if \<not> isInitialized seen then (st\<lparr>error := Some ''DuckDB not initialized''\<rparr>, session)
      else
        (let ext = file_ext (fname f);
             tableName = generateTableName (tables seen) (fname f) ext;
             r = registerFileAsTable session f tableName
         in case fst r of
              None \<Rightarrow>
                (st\<lparr>isLoading := False, error := None,
                    tables := tables st @ [\<lparr>name = tableName, fileType = ext, fileName = fname f\<rparr>]\<rparr>,
                 snd r)
            | Some err \<Rightarrow>
                (st\<lparr>isLoading := False, error := Some (message err)\<rparr>, snd r)))"

subsection \<open>\<^verbatim>\<open>handleFileSelect\<close> (src/components/FileSelector.tsx)\<close>

text \<open>
  The files of one selection are filtered by extension; with none left the function
  returns. Otherwise the error is cleared and the files are ingested one after the other,
  each call awaited, all with the \<^verbatim>\<open>registerFile\<close> of the render that created this
  function. A spreadsheet opens the sheet picker and ends the loop.
\<close>

fun select_loop :: "provider_state \<Rightarrow> provider_state \<Rightarrow> engine option \<Rightarrow> js_file list \<Rightarrow>
    provider_state \<times> engine option" where
  "select_loop seen st session [] = (st, session)"
| "select_loop seen st session (f # fs) =
     (if file_ext (fname f) = ''xlsx'' \<or> file_ext (fname f) = ''xls'' then (st, session)
      else select_loop seen (fst (registerFile seen st session f))
             (snd (registerFile seen st session f)) fs)"

definition handleFileSelect :: "provider_state \<Rightarrow> provider_state \<Rightarrow> engine option \<Rightarrow>
    js_file list \<Rightarrow> provider_state \<times> engine option" where
  "handleFileSelect seen st session files =
     (let validFiles =
            filter (\<lambda>f. file_ext (fname f) = ''csv'' \<or> file_ext (fname f) = ''parquet''
                         \<or> file_ext (fname f) = ''xlsx'' \<or> file_ext (fname f) = ''xls'') files
      in if validFiles = [] then (st, session)
         else select_loop seen (st\<lparr>error := None\<rparr>) session validFiles)"

subsection \<open>\<^verbatim>\<open>runQuery\<close> (src/lib/duckdb.ts) and \<^verbatim>\<open>executeQuery\<close>\<close>

text \<open>
  The connection answers a SQL text with an error or with the field names of the result's
  schema and the array of its rows; \<open>None\<close> stands for an unset connection.
\<close>

type_synonym connection = "string \<Rightarrow> js_error + (string list \<times> jsvalue list)"

definition runQuery :: "connection option \<Rightarrow> string \<Rightarrow> js_error + QueryResult" where
  "runQuery cn sql =
     (case cn of
        None \<Rightarrow> Inl (Error ''DuckDB connection not initialized'')
      | Some q \<Rightarrow>
          (case q sql of
             Inl e \<Rightarrow> Inl e
           | Inr (field_names, result_rows) \<Rightarrow>
               Inr \<lparr>columns = field_names,
                    rows = elements (convertBigIntValues (JArray result_rows))\<rparr>))"

definition executeQuery :: "provider_state \<Rightarrow> connection option \<Rightarrow> string \<Rightarrow> provider_state" where
  "executeQuery st cn sql =
     (if \<not> isInitialized st then st\<lparr>error := Some ''DuckDB not initialized''\<rparr>
      else case runQuery cn sql of
             Inr result \<Rightarrow> st\<lparr>isQueryRunning := False, error := None, queryResult := Some result\<rparr>
           | Inl err \<Rightarrow>
               st\<lparr>isQueryRunning := False, error := Some (message err), queryResult := None\<rparr>)"

subsection \<open>Removal of a table\<close>

text \<open>
  Modelled from the spec: \<^verbatim>\<open>removeTable\<close> is called by \<^verbatim>\<open>handleRemoveFile\<close>
  (src/components/FileSelector.tsx), but the provider under src/ neither declares nor defines
  it. The specification (section 4.3) gives \<^verbatim>\<open>remove(name) -> Result<void, NotFoundError>\<close>:
  it drops the backing engine table, then deletes the record; if the drop fails, the record
  is not removed. A failed removal leaves the registry and the engine as they were.

  The engine drops a table that exists and reports a missing one; it may also refuse a drop
  for a reason of its own, which is given as \<open>fault\<close>.
\<close>

datatype remove_error = NotFoundError | DropFailed js_error

definition table_not_found :: "string \<Rightarrow> js_error" where
  "table_not_found n = Error (''Catalog Error: Table with name '' @ n @ '' does not exist!'')"

definition drop_table :: "engine \<Rightarrow> js_error option \<Rightarrow> string \<Rightarrow> js_error + engine" where
  "drop_table eng fault n =
     (case fault of
        Some e \<Rightarrow> Inl e
      | None \<Rightarrow>
          if has_table eng n then Inr (filter (\<lambda>(k, tb). k \<noteq> table_key n) eng)
          else Inl (table_not_found n))"

definition select_from :: "engine \<Rightarrow> string \<Rightarrow> js_error + db_table" where
  "select_from eng n =
     (case lookup_table eng n of None \<Rightarrow> Inl (table_not_found n) | Some tb \<Rightarrow> Inr tb)"

definition removeTable :: "TableInfo list \<Rightarrow> engine \<Rightarrow> js_error option \<Rightarrow> string \<Rightarrow>
    remove_error + (TableInfo list \<times> engine)" where
  "removeTable registry eng fault n =
     (if n \<notin> set (map name registry) then Inl NotFoundError
      else case drop_table eng fault n of
             Inl e \<Rightarrow> Inl (DropFailed e)
           | Inr eng' \<Rightarrow> Inr (filter (\<lambda>t. name t \<noteq> n) registry, eng'))"

subsection \<open>The lockstep of registry and engine\<close>




section \<open>Engine initialization: \<^verbatim>\<open>initDuckDB\<close> (src/lib/duckdb.ts)\<close>

text \<open>
  The module variables \<^verbatim>\<open>db\<close> and \<^verbatim>\<open>conn\<close>, and the number of engine instances created
  so far (each \<^verbatim>\<open>new AsyncDuckDB\<close> with its worker). An instance is named by its number; a
  connection is named by the instance it was opened on.
\<close>

record module_vars =
  db :: "nat option"
  conn :: "nat option"
  instances :: nat

text \<open>
  A call of \<^verbatim>\<open>initDuckDB\<close> runs without interruption from one \<^verbatim>\<open>await\<close> to the next;
  the awaited operations are taken to succeed. The points at which a call can stand:
  not started; awaiting \<^verbatim>\<open>selectBundle\<close>; awaiting \<^verbatim>\<open>db.instantiate\<close>; awaiting
  \<^verbatim>\<open>db.connect()\<close> on the instance that \<^verbatim>\<open>db\<close> held when the call resumed; returned
  with the pair \<^verbatim>\<open>{ db, conn }\<close>; failed on an unset \<^verbatim>\<open>db\<close>.
\<close>

datatype call = NotStarted | AwaitSelectBundle | AwaitInstantiate | AwaitConnect nat
  | Returned nat nat | Failed

fun step :: "module_vars \<Rightarrow> call \<Rightarrow> module_vars \<times> call" where
  "step m NotStarted =
     (case (db m, conn m) of
        (Some d, Some c) \<Rightarrow> (m, Returned d c)
      | _ \<Rightarrow> (m, AwaitSelectBundle))"
| "step m AwaitSelectBundle =
     (m\<lparr>db := Some (instances m), instances := instances m + 1\<rparr>, AwaitInstantiate)"
| "step m AwaitInstantiate =
     (case db m of Some d \<Rightarrow> (m, AwaitConnect d) | None \<Rightarrow> (m, Failed))"
| "step m (AwaitConnect d) =
     (case db m of
        Some d' \<Rightarrow> (m\<lparr>conn := Some d\<rparr>, Returned d' d)
      | None \<Rightarrow> (m\<lparr>conn := Some d\<rparr>, Failed))"
| "step m (Returned d c) = (m, Returned d c)"
| "step m Failed = (m, Failed)"



section \<open>Scope of the engine model, and concrete inputs\<close>





text \<open>A spreadsheet file with a given first sheet.\<close>

definition workbook :: "string \<Rightarrow> cell slot list list \<Rightarrow> js_file" where
  "workbook n grid =
     \<lparr>fname = n,
      csv_scan = Inl (Error ''Invalid Input Error: not a delimited text file''),
      parquet_direct = Inl (Error ''Invalid Input Error: not a Parquet file''),
      parquet_describe = Inl (Error ''Invalid Input Error: not a Parquet file''),
      parquet_scan = Inl (Error ''Invalid Input Error: not a Parquet file''),
      sheet_to_json = Inr grid\<rparr>"

definition two_blank_headers :: "cell slot list list" where
  "two_blank_headers =
     [[Elem (CString ''a''), Elem (CString []), Elem (CString ''c''), Elem (CString [])],
      [Elem (CString ''1''), Elem (CString ''2''), Elem (CString ''3''), Elem (CString ''4'')]]"



text \<open>
  A row of a \<^verbatim>\<open>DESCRIBE\<close> result as \<^verbatim>\<open>toArray()\<close> yields it: keyed by the six column
  names of the result. And a columnar file whose direct scan is rejected while the scan
  into text columns would succeed.
\<close>

definition describe_row :: "string \<Rightarrow> string \<Rightarrow> jsvalue" where
  "describe_row column_name column_type =
     JObject [(''column_name'', JString column_name), (''column_type'', JString column_type),
              (''null'', JString ''YES''), (''key'', JNull), (''default'', JNull),
              (''extra'', JNull)]"

definition wide_columns :: js_file where
  "wide_columns =
     \<lparr>fname = ''events.parquet'',
      csv_scan = Inl (Error ''Invalid Input Error: not a delimited text file''),
      parquet_direct = Inl (Error ''Conversion Error: oversized integer''),
      parquet_describe =
        Inr [describe_row ''id'' ''BIGINT'', describe_row ''label'' ''VARCHAR'',
             describe_row ''total'' ''HUGEINT''],
      parquet_scan =
        Inr [[''9007199254740993'', ''a'', ''170141183460469231731687303715884105727'']],
      sheet_to_json = Inl (Error ''Unsupported file'')\<rparr>"

text \<open>A delimited-text file that the engine reads as a given table.\<close>

definition csv_file :: "string \<Rightarrow> db_table \<Rightarrow> js_file" where
  "csv_file n tb =
     \<lparr>fname = n,
      csv_scan = Inr tb,
      parquet_direct = Inl (Error ''Invalid Input Error: not a Parquet file''),
      parquet_describe = Inl (Error ''Invalid Input Error: not a Parquet file''),
      parquet_scan = Inl (Error ''Invalid Input Error: not a Parquet file''),
      sheet_to_json = Inl (Error ''Unsupported file'')\<rparr>"

definition one_row :: db_table where
  "one_row = \<lparr>tcolumns = [(''id'', ''BIGINT''), (''label'', ''VARCHAR'')], tdata = [[''1'', ''a'']]\<rparr>"

definition ready_state :: provider_state where
  "ready_state =
     \<lparr>isInitialized = True, isLoading = False, error = None, tables = [],
      queryResult = None, isQueryRunning = False\<rparr>"



text \<open>And a provider and an engine that hold two.\<close>

definition two_loaded :: provider_state where
  "two_loaded =
     \<lparr>isInitialized = True, isLoading = False, error = None,
      tables = [\<lparr>name = ''file_csv_sales'', fileType = ''csv'', fileName = ''sales.csv''\<rparr>,
                \<lparr>name = ''file_xlsx_book'', fileType = ''xlsx'', fileName = ''book.xlsx''\<rparr>],
      queryResult = None, isQueryRunning = False\<rparr>"

definition two_engine :: engine where
  "two_engine =
     [(''file_csv_sales'', one_row),
      (''file_xlsx_book'', \<lparr>tcolumns = [(''a'', ''VARCHAR'')], tdata = []\<rparr>)]"

text \<open>
  A connection that answers one query and rejects every other text.
\<close>

definition example_connection :: connection where
  "example_connection sql =
     (if sql = ''SELECT 42 AS answer''
      then Inr ([''answer''], [JObject [(''answer'', JNumber (Finite 42))]])
      else Inl (Error ''Parser Error: syntax error''))"

section \<open>Properties of Numeric Normalization\<close>

lemma digit_value_digit_char: "0 \<le> d \<Longrightarrow> d < 10 \<Longrightarrow> digit_value (digit_char d) = d"
proof -
  assume "0 \<le> d" "d < 10"
  then have "d = 0 \<or> d = 1 \<or> d = 2 \<or> d = 3 \<or> d = 4 \<or> d = 5 \<or> d = 6 \<or> d = 7 \<or> d = 8 \<or> d = 9"
    by arith
  then show ?thesis
    by (elim disjE) (simp_all add: digit_value_def digit_char_def)
qed

lemma digits_value_snoc: "digits_value (s @ [c]) = 10 * digits_value s + digit_value c"
  by (simp add: digits_value_def)

lemma digits_value_digits: "0 \<le> n \<Longrightarrow> digits_value (digits n) = n"
proof (induction n rule: digits.induct)
  case (1 n)
  show ?case
  proof (cases "n < 10")
    case True
    then have "digits n = [digit_char n]" by (subst digits.simps) simp
    with True 1(2) show ?thesis
      by (simp add: digits_value_def digit_value_digit_char)
  next
    case False
    then have ih: "digits_value (digits (n div 10)) = n div 10"
      using 1 by simp
    have "digits n = digits (n div 10) @ [digit_char (n mod 10)]"
      using False by (subst digits.simps) simp
    then show ?thesis
      using ih by (simp add: digits_value_snoc digit_value_digit_char)
  qed
qed

lemma digits_nonempty: "digits n \<noteq> []"
  by (subst digits.simps) simp

lemma digit_char_not_minus: "0 \<le> d \<Longrightarrow> d < 10 \<Longrightarrow> digit_char d \<noteq> CHR ''-''"
proof
  assume a: "0 \<le> d" "d < 10" and "digit_char d = CHR ''-''"
  then have "digit_value (digit_char d) = digit_value CHR ''-''" by simp
  with a show False
    by (simp add: digit_value_digit_char) (simp add: digit_value_def)
qed

lemma hd_digits_not_minus: "0 \<le> n \<Longrightarrow> hd (digits n) \<noteq> CHR ''-''"
proof (induction n rule: digits.induct)
  case (1 n)
  show ?case
  proof (cases "n < 10")
    case True
    with 1(2) show ?thesis by (subst digits.simps) (simp add: digit_char_not_minus)
  next
    case False
    then have "hd (digits (n div 10)) \<noteq> CHR ''-''" using 1 by simp
    moreover have "digits n = digits (n div 10) @ [digit_char (n mod 10)]"
      using False by (subst digits.simps) simp
    ultimately show ?thesis by (simp add: digits_nonempty)
  qed
qed

lemma decimal_value_toString: "decimal_value (BigInt_toString n) = n"
proof (cases "n < 0")
  case True
  then show ?thesis
    by (simp add: BigInt_toString_def decimal_value_def digits_value_digits)
next
  case False
  then have n: "0 \<le> n" by simp
  obtain c ds where cd: "digits n = c # ds"
    using digits_nonempty [of n] by (cases "digits n") auto
  with hd_digits_not_minus [OF n] have "c \<noteq> CHR ''-''" by simp
  with cd False show ?thesis
    using digits_value_digits [OF n] by (simp add: BigInt_toString_def decimal_value_def)
qed

lemma isSafeInteger_of_int:
  "isSafeInteger (Finite (of_int k)) \<longleftrightarrow> \<bar>k\<bar> \<le> 9007199254740991"
proof -
  have "\<bar>(of_int k :: rat)\<bar> \<le> 9007199254740991 \<longleftrightarrow> \<bar>k\<bar> \<le> 9007199254740991"
    by (metis of_int_abs of_int_le_iff of_int_numeral)
  then show ?thesis by simp
qed

lemma round_half_even_small: "m < 2 ^ 53 \<Longrightarrow> round_half_even m = m"
  by (simp add: round_half_even_def)

lemma round_half_even_large:
  assumes "2 ^ 53 \<le> m"
  shows "2 ^ 53 \<le> round_half_even m"
proof -
  define e where "e = nat (bitlen m) - 53"
  define q where "q = m div 2 ^ e"
  have "(0::int) < 2 ^ 53" by simp
  with assms have mpos: "0 < m" by linarith
  have lo: "2 ^ nat (bitlen m - 1) \<le> m" and hi: "m < 2 ^ nat (bitlen m)"
    using bitlen_bounds [OF mpos] by auto
  have "(2::int) ^ 53 < 2 ^ nat (bitlen m)" using assms hi by linarith
  then have bl: "53 < nat (bitlen m)"
    by (rule power_less_imp_less_exp [rotated]) simp
  then have e1: "1 \<le> e" and eb: "nat (bitlen m - 1) = 52 + e"
    by (auto simp: e_def)
  have pe: "(0::int) < 2 ^ e" by simp
  have "(2::int) ^ 52 * 2 ^ e \<le> m" using lo eb by (simp add: power_add del: power_numeral)
  then have "(2 ^ 52 * 2 ^ e) div 2 ^ e \<le> m div 2 ^ e"
    using pe by (intro zdiv_mono1) auto
  then have q52: "2 ^ 52 \<le> q" unfolding q_def by simp
  have "(2::int) ^ 1 \<le> 2 ^ e" using e1 by (intro power_increasing) auto
  then have two: "(2::int) \<le> 2 ^ e" by simp
  have "(2::int) ^ 52 * 2 \<le> q * 2 ^ e"
    using q52 two by (intro mult_mono) auto
  then have qe: "2 ^ 53 \<le> q * 2 ^ e" by simp
  have "q * 2 ^ e \<le> (q + 1) * 2 ^ e" using pe by (simp add: distrib_right)
  with qe have qe1: "2 ^ 53 \<le> (q + 1) * 2 ^ e" by linarith
  have "round_half_even m = q * 2 ^ e \<or> round_half_even m = (q + 1) * 2 ^ e"
    using assms unfolding round_half_even_def Let_def e_def [symmetric] q_def [symmetric]
    by (simp del: power_numeral)
  with qe qe1 show ?thesis by auto
qed

lemma convert_leaf:
  "convertBigIntValues (JBigInt n) = normalize_spec (JBigInt n)"
proof (cases "\<bar>n\<bar> < 2 ^ 53")
  case True
  then have r: "round_half_even \<bar>n\<bar> = \<bar>n\<bar>" by (rule round_half_even_small)
  have s: "sgn n * \<bar>n\<bar> = n" by (simp add: mult_sgn_abs)
  have "(2::int) ^ 53 < 2 ^ 1024" by (intro power_strict_increasing) auto
  with True have "\<not> 2 ^ 1024 \<le> \<bar>n\<bar>" by linarith
  with r s have "Number_of_bigint n = Finite (of_int n)"
    by (simp add: Number_of_bigint_def Let_def del: power_numeral)
  moreover have "\<bar>n\<bar> \<le> 9007199254740991" using True by simp
  ultimately show ?thesis
    by (simp add: isSafeInteger_of_int del: isSafeInteger.simps) (simp add: abs_le_iff)
next
  case False
  then have big: "2 ^ 53 \<le> round_half_even \<bar>n\<bar>" by (intro round_half_even_large) simp
  have "\<not> isSafeInteger (Number_of_bigint n)"
  proof (cases "2 ^ 1024 \<le> round_half_even \<bar>n\<bar>")
    case True
    then show ?thesis by (simp add: Number_of_bigint_def Let_def del: power_numeral)
  next
    case F: False
    define k where "k = sgn n * round_half_even \<bar>n\<bar>"
    have "Number_of_bigint n = Finite (of_int k)"
      using F by (simp add: Number_of_bigint_def Let_def k_def del: power_numeral)
    moreover have "\<bar>k\<bar> = round_half_even \<bar>n\<bar>"
      using big False by (simp add: abs_mult abs_sgn_eq k_def)
    ultimately show ?thesis using big
      by (simp only: isSafeInteger_of_int) simp
  qed
  moreover have "\<not> (- 9007199254740991 \<le> n \<and> n \<le> 9007199254740991)"
    using False by (simp add: abs_less_iff) linarith
  ultimately show ?thesis by (simp add: Let_def)
qed

lemma own_property_fresh:
  "key \<notin> fst ` set ps \<Longrightarrow> own_property ps key v = ps @ [(key, v)]"
  by (induction ps) auto

lemma own_property_keys:
  "map fst (own_property ps key v) = (if key \<in> fst ` set ps then map fst ps else map fst ps @ [key])"
proof (induction ps)
  case Nil
  show ?case by simp
next
  case (Cons p ps)
  obtain k w where p: "p = (k, w)" by (cases p)
  show ?case
  proof (cases "k = key")
    case True
    then show ?thesis by (simp add: p)
  next
    case False
    then show ?thesis using Cons.IH by (simp add: p)
  qed
qed

lemma own_property_values:
  "snd ` set (own_property ps key v) \<subseteq> insert v (snd ` set ps)"
proof (induction ps)
  case Nil
  show ?case by simp
next
  case (Cons p ps)
  obtain k w where p: "p = (k, w)" by (cases p)
  show ?case
  proof (cases "k = key")
    case True
    then show ?thesis by (auto simp: p)
  next
    case False
    then show ?thesis using Cons.IH by (auto simp: p)
  qed
qed

lemma own_property_distinct:
  "distinct (map fst ps) \<Longrightarrow> distinct (map fst (own_property ps key v))"
  by (simp add: own_property_keys)

lemma own_assign_distinct:
  "distinct (map fst acc) \<Longrightarrow>
   distinct (map fst (fold (\<lambda>(key, value) converted. own_property converted key (f value)) es acc))"
  by (induction es arbitrary: acc) (auto simp: own_property_distinct split: prod.splits)

lemma own_assign_keys:
  "fst ` set (fold (\<lambda>(key, value) converted. own_property converted key (f value)) es acc)
     \<subseteq> fst ` set es \<union> fst ` set acc"
proof (induction es arbitrary: acc)
  case Nil
  then show ?case by simp
next
  case (Cons e es)
  obtain k v where e: "e = (k, v)" by (cases e)
  have "set (map fst (own_property acc k (f v))) \<subseteq> insert k (fst ` set acc)"
    unfolding own_property_keys by auto
  then have "fst ` set (own_property acc k (f v)) \<subseteq> insert k (fst ` set acc)" by simp
  with Cons.IH [of "own_property acc k (f v)"] show ?case by (auto simp: e)
qed

lemma own_assign_values:
  "snd ` set (fold (\<lambda>(key, value) converted. own_property converted key (f value)) es acc)
     \<subseteq> f ` snd ` set es \<union> snd ` set acc"
proof (induction es arbitrary: acc)
  case Nil
  then show ?case by simp
next
  case (Cons e es)
  obtain k v where e: "e = (k, v)" by (cases e)
  have "snd ` set (fold (\<lambda>(key, value) converted. own_property converted key (f value)) es
           (own_property acc k (f v)))
        \<subseteq> f ` snd ` set es \<union> snd ` set (own_property acc k (f v))"
    by (rule Cons.IH)
  also have "\<dots> \<subseteq> f ` snd ` set es \<union> insert (f v) (snd ` set acc)"
    using own_property_values [of acc k "f v"] by blast
  finally show ?case by (auto simp: e)
qed

lemma own_assign_fresh:
  "distinct (map fst (acc @ es)) \<Longrightarrow>
   fold (\<lambda>(key, value) converted. own_property converted key (f value)) es acc
     = acc @ map (\<lambda>(k, v). (k, f v)) es"
proof (induction es arbitrary: acc)
  case Nil
  then show ?case by simp
next
  case (Cons e es)
  obtain k v where e: "e = (k, v)" by (cases e)
  from Cons.prems have fresh: "k \<notin> fst ` set acc" by (auto simp: e)
  then have sp: "own_property acc k (f v) = acc @ [(k, f v)]" by (rule own_property_fresh)
  from Cons.prems have "distinct (map fst ((acc @ [(k, f v)]) @ es))" by (auto simp: e)
  from Cons.IH [OF this] show ?case by (simp add: e sp)
qed

text \<open>
  The entries under the key \<^verbatim>\<open>__proto__\<close> take no part in the rebuilding of an object.
\<close>

lemma assign_filter:
  "fold (\<lambda>(key, value) converted. set_property converted key (f value)) es acc
     = fold (\<lambda>(key, value) converted. own_property converted key (f value))
         (filter (\<lambda>(k, v). k \<noteq> ''__proto__'') es) acc"
  by (induction es arbitrary: acc) (auto simp: set_property_def)

lemma assign_distinct:
  "distinct (map fst acc) \<Longrightarrow>
   distinct (map fst (fold (\<lambda>(key, value) converted. set_property converted key (f value)) es acc))"
  unfolding assign_filter by (rule own_assign_distinct)

lemma assign_values:
  "snd ` set (fold (\<lambda>(key, value) converted. set_property converted key (f value)) es acc)
     \<subseteq> f ` snd ` set es \<union> snd ` set acc"
proof -
  have "f ` snd ` set (filter (\<lambda>(k, v). k \<noteq> ''__proto__'') es) \<subseteq> f ` snd ` set es"
    by (intro image_mono) auto
  with own_assign_values [of f "filter (\<lambda>(k, v). k \<noteq> ''__proto__'') es" acc]
  show ?thesis unfolding assign_filter by blast
qed

lemma assign_no_proto:
  "''__proto__'' \<notin> fst ` set acc \<Longrightarrow>
   ''__proto__'' \<notin> fst ` set (fold (\<lambda>(key, value) converted.
       set_property converted key (f value)) es acc)"
  unfolding assign_filter
  using own_assign_keys [of f "filter (\<lambda>(k, v). k \<noteq> ''__proto__'') es" acc] by auto

lemma assign_fresh:
  assumes "distinct (map fst (acc @ es))" and "''__proto__'' \<notin> fst ` set es"
  shows "fold (\<lambda>(key, value) converted. set_property converted key (f value)) es acc
           = acc @ map (\<lambda>(k, v). (k, f v)) es"
proof -
  from assms(2) have "filter (\<lambda>(k, v). k \<noteq> ''__proto__'') es = es"
    by (force simp: filter_id_conv)
  with own_assign_fresh [OF assms(1), of f] show ?thesis by (simp add: assign_filter)
qed

lemma convert_refines_spec: "wf_value v \<Longrightarrow> convertBigIntValues v = normalize_spec v"
proof (induction v rule: convertBigIntValues.induct)
  case (1 n)
  show ?case by (rule convert_leaf)
next
  case (2 xs)
  then show ?case by (simp add: list_all_iff)
next
  case (3 es)
  from 3(2) have d: "distinct (map fst ([] @ es))" and np: "''__proto__'' \<notin> fst ` set es"
    by simp_all
  have "map (\<lambda>(k, v). (k, convertBigIntValues v)) es = map (\<lambda>(k, v). (k, normalize_spec v)) es"
    using 3 by (auto simp: list_all_iff)
  then show ?case using assign_fresh [OF d np, of convertBigIntValues] by simp
qed simp_all

lemma convert_idem: "convertBigIntValues (convertBigIntValues v) = convertBigIntValues v"
proof (induction v rule: convertBigIntValues.induct)
  case (1 n)
  show ?case by (simp add: Let_def)
next
  case (2 xs)
  then show ?case by simp
next
  case (3 es)
  define R where "R = fold (\<lambda>(key, value) converted.
      set_property converted key (convertBigIntValues value)) es []"
  have dist: "distinct (map fst ([] @ R))"
    unfolding R_def using assign_distinct [of "[]" convertBigIntValues es] by simp
  have np: "''__proto__'' \<notin> fst ` set R"
    unfolding R_def using assign_no_proto [of "[]" convertBigIntValues es] by simp
  have "snd ` set R \<subseteq> convertBigIntValues ` snd ` set es"
    unfolding R_def using assign_values [of convertBigIntValues es "[]"] by simp
  then have fixed: "\<And>k w. (k, w) \<in> set R \<Longrightarrow> convertBigIntValues w = w"
    using 3 by force
  then have "map (\<lambda>(k, v). (k, convertBigIntValues v)) R = R"
    by (induction R) auto
  with assign_fresh [OF dist np, of convertBigIntValues]
  have "convertBigIntValues (JObject R) = JObject R" by simp
  then show ?case by (simp add: R_def)
qed simp_all

text \<open>
  Claim C1: a defect of the code. Every entry of an object is converted and then assigned
  with \<^verbatim>\<open>converted[key] = ...\<close>. For the key \<^verbatim>\<open>__proto__\<close> that assignment creates no
  property, so the entry is missing from the result: a wide integer held under that key,
  which the specification turns into its decimal text, is lost.
\<close>

theorem convertBigIntValues_drops_proto_leaf:
  "convertBigIntValues
     (JObject [(''a'', JBigInt 1), (''__proto__'', JBigInt 9007199254740993), (''b'', JBigInt 2)])
     = JObject [(''a'', JNumber (Finite 1)), (''b'', JNumber (Finite 2))]
   \<and> normalize_spec
     (JObject [(''a'', JBigInt 1), (''__proto__'', JBigInt 9007199254740993), (''b'', JBigInt 2)])
     = JObject [(''a'', JNumber (Finite 1)), (''__proto__'', JString ''9007199254740993''),
                (''b'', JNumber (Finite 2))]"
  by code_simp

text \<open>
  On every value whose objects have distinct keys, none of them \<^verbatim>\<open>__proto__\<close>, the code
  computes what the specification describes: a wide integer within
  \<open>[-(2^53 - 1), 2^53 - 1]\<close> becomes the number of exactly its value, any other becomes its
  decimal text, from which the integer can be read back.
\<close>

lemma convertBigIntValues_exact_without_proto:
  assumes "wf_value v"
  shows "convertBigIntValues v = normalize_spec v
         \<and> (\<forall>n. decimal_value (BigInt_toString n) = n)"
  using assms by (simp add: convert_refines_spec decimal_value_toString)

text \<open>
  Claim C7. Numeric normalization is idempotent: normalizing the result of a normalization
  returns it unchanged, for every value.
\<close>

theorem convertBigIntValues_idempotent:
  "convertBigIntValues (convertBigIntValues v) = convertBigIntValues v"
  by (rule convert_idem)

theorem convertBigIntValues_idempotent_witness:
  "convertBigIntValues (convertBigIntValues
      (JObject [(''n'', JBigInt 18446744073709551617), (''xs'', JArray [JBigInt 7])]))
   = JObject [(''n'', JString ''18446744073709551617''), (''xs'', JArray [JNumber (Finite 7)])]"
  (is "convertBigIntValues (convertBigIntValues ?V) = ?R")
proof -
  have "convertBigIntValues ?V = ?R" by code_simp
  with convertBigIntValues_idempotent [of ?V] show ?thesis by (simp only:)
qed

section \<open>Table name derivation: termination and uniqueness\<close>

lemma digits_inj: "0 \<le> a \<Longrightarrow> 0 \<le> b \<Longrightarrow> digits a = digits b \<Longrightarrow> a = b"
  by (metis digits_value_digits)

lemma candidate_inj: "candidate t i = candidate t j \<Longrightarrow> i = j"
  using digits_inj [of "int i" "int j"] by (simp add: candidate_def)

lemma finite_candidates: "finite {k. candidate t k \<in> set names}"
proof -
  have "inj (candidate t)" by (rule injI) (rule candidate_inj)
  then have "finite (candidate t -` set names)" by (intro finite_vimageI) auto
  then show ?thesis by (simp add: vimage_def)
qed

termination name_loop
proof (relation "measure (\<lambda>(names, t, fin, c).
          card {k. c \<le> k \<and> candidate t k \<in> set names} + (if fin \<in> set names then 1 else 0))")
  show "wf (measure (\<lambda>(names, t, fin, c).
          card {k. c \<le> k \<and> candidate t k \<in> set names} + (if fin \<in> set names then 1 else 0)))"
    by simp
next
  fix names :: "string list" and tableNm finalName :: string and counter :: nat
  assume "finalName \<in> set names"
  let ?A = "{k. counter + 1 \<le> k \<and> candidate tableNm k \<in> set names}"
  let ?B = "{k. counter \<le> k \<and> candidate tableNm k \<in> set names}"
  have finA: "finite ?A" using finite_candidates [of tableNm names] by (rule rev_finite_subset) auto
  have "card ?A + (if candidate tableNm counter \<in> set names then 1 else 0) = card ?B"
  proof (cases "candidate tableNm counter \<in> set names")
    case True
    then have "?B = insert counter ?A" by (auto simp: le_Suc_eq)
    moreover have "counter \<notin> ?A" by simp
    ultimately show ?thesis using finA True by simp
  next
    case False
    then have "?B = ?A" by (auto simp: le_Suc_eq) (metis le_antisym not_less_eq_eq)
    then show ?thesis using False by simp
  qed
  with \<open>finalName \<in> set names\<close>
  show "((names, tableNm, candidate tableNm counter, counter + 1), (names, tableNm, finalName, counter))
        \<in> measure (\<lambda>(names, t, fin, c).
          card {k. c \<le> k \<and> candidate t k \<in> set names} + (if fin \<in> set names then 1 else 0))"
    by simp
qed

declare name_loop.simps [simp del]

lemma name_loop_fresh: "name_loop names t fin c \<notin> set names"
proof (induction names t fin c rule: name_loop.induct)
  case (1 names t fin c)
  then show ?case by (subst name_loop.simps) simp
qed

lemma name_loop_least:
  "name_loop names t fin c = fin \<and> fin \<notin> set names
   \<or> (\<exists>k\<ge>c. name_loop names t fin c = candidate t k \<and> fin \<in> set names
         \<and> (\<forall>j. c \<le> j \<and> j < k \<longrightarrow> candidate t j \<in> set names))"
proof (induction names t fin c rule: name_loop.induct)
  case (1 names t fin c)
  show ?case
  proof (cases "fin \<in> set names")
    case False
    then show ?thesis by (subst name_loop.simps) simp
  next
    case True
    then have step: "name_loop names t fin c = name_loop names t (candidate t c) (c + 1)"
      by (subst name_loop.simps) simp
    from 1 [OF True] consider
      (stop) "name_loop names t (candidate t c) (c + 1) = candidate t c" "candidate t c \<notin> set names"
      | (go) k where "c + 1 \<le> k" "name_loop names t (candidate t c) (c + 1) = candidate t k"
          "candidate t c \<in> set names" "\<forall>j. c + 1 \<le> j \<and> j < k \<longrightarrow> candidate t j \<in> set names"
      by blast
    then show ?thesis
    proof cases
      case stop
      with True step show ?thesis by (intro disjI2 exI [of _ c]) auto
    next
      case go
      have "\<forall>j. c \<le> j \<and> j < k \<longrightarrow> candidate t j \<in> set names"
      proof (intro allI impI)
        fix j assume "c \<le> j \<and> j < k"
        then have "j = c \<or> (c + 1 \<le> j \<and> j < k)" by arith
        with go show "candidate t j \<in> set names" by blast
      qed
      with go True step show ?thesis by (intro disjI2 exI [of _ k]) auto
    qed
  qed
qed

lemma generateTableName_fresh: "generateTableName ts f e \<notin> set (map name ts)"
  unfolding generateTableName_def by (rule name_loop_fresh)

text \<open>
  What the derivation guarantees, against the registry that it reads: the result is the
  base \<^verbatim>\<open>file_<ext>_<sanitized name>\<close> when no record of that registry has it, and
  otherwise the base with the least suffix \<open>_k\<close>, \<open>k \<ge> 1\<close>, that no record of that
  registry has.
\<close>

lemma generateTableName_least_free:
  "generateTableName ts f e \<notin> set (map name ts)
   \<and> (generateTableName ts f e = tableName_of f e \<and> tableName_of f e \<notin> set (map name ts)
       \<or> (\<exists>k\<ge>1. generateTableName ts f e = tableName_of f e @ ''_'' @ digits (int k)
             \<and> tableName_of f e \<in> set (map name ts)
             \<and> (\<forall>j. 1 \<le> j \<and> j < k \<longrightarrow>
                   tableName_of f e @ ''_'' @ digits (int j) \<in> set (map name ts))))"
  using name_loop_least [of "map name ts" "tableName_of f e" "tableName_of f e" 1]
    generateTableName_fresh [of ts f e]
  unfolding generateTableName_def candidate_def by blast

text \<open>
  Claim C4: a defect of the code. The name is derived from \<^verbatim>\<open>tables\<close> as the render that
  created \<^verbatim>\<open>registerFile\<close> saw it, and \<^verbatim>\<open>handleFileSelect\<close> ingests all files of one
  selection with that one function. Two files of one selection that derive the same base
  therefore get the same name: the second \<^verbatim>\<open>CREATE TABLE\<close> is rejected, the file is not
  ingested, and the registry ends with one name where the specification promises two.
\<close>

theorem handleFileSelect_same_base_collides:
  "generateTableName (tables ready_state) ''my data.csv'' ''csv'' = ''file_csv_my_data''
   \<and> generateTableName (tables ready_state) ''my-data.csv'' ''csv'' = ''file_csv_my_data''
   \<and> handleFileSelect ready_state ready_state (Some [])
        [csv_file ''my data.csv'' one_row, csv_file ''my-data.csv'' one_row]
     = (ready_state
          \<lparr>error := Some ''Catalog Error: Table with name file_csv_my_data already exists!'',
           tables := [\<lparr>name = ''file_csv_my_data'', fileType = ''csv'', fileName = ''my data.csv''\<rparr>]\<rparr>,
        Some [(''file_csv_my_data'', one_row)])"
  by code_simp

section \<open>Query execution\<close>

text \<open>
  Claim C6, as the specification states it, fails on the provider: a failed execution sets
  the held result to \<^verbatim>\<open>null\<close>. Here a first query succeeds and its result is held; the
  second text is rejected, and the result is gone.
\<close>

theorem executeQuery_clears_result_counterexample:
  "queryResult (executeQuery ready_state (Some example_connection) ''SELECT 42 AS answer'')
     = Some \<lparr>columns = [''answer''], rows = [JObject [(''answer'', JNumber (Finite 42))]]\<rparr>
   \<and> queryResult
        (executeQuery (executeQuery ready_state (Some example_connection) ''SELECT 42 AS answer'')
           (Some example_connection) ''SELEC 42'') = None"
  by (simp add: executeQuery_def runQuery_def example_connection_def ready_state_def
      set_property_def)

text \<open>
  Claim C6, amended. When the connection rejects a query, \<^verbatim>\<open>runQuery\<close> returns that error
  and holds no result of its own; \<^verbatim>\<open>executeQuery\<close> of an initialized provider then stores
  the error's message, sets the held result to none and changes nothing else but the
  running flag.
\<close>

theorem executeQuery_failure:
  "(\<forall>q. cn = Some q \<and> q sql = Inl e \<longrightarrow> runQuery cn sql = Inl e)
   \<and> (isInitialized st \<and> runQuery cn sql = Inl e \<longrightarrow>
        executeQuery st cn sql
          = st\<lparr>isQueryRunning := False, error := Some (message e), queryResult := None\<rparr>)"
  by (auto simp: executeQuery_def runQuery_def)

theorem executeQuery_failure_witness:
  "example_connection ''SELEC 42'' = Inl (Error ''Parser Error: syntax error'')
   \<and> isInitialized ready_state
   \<and> runQuery (Some example_connection) ''SELEC 42'' = Inl (Error ''Parser Error: syntax error'')
   \<and> executeQuery ready_state (Some example_connection) ''SELEC 42''
       = ready_state\<lparr>isQueryRunning := False, error := Some ''Parser Error: syntax error'',
                      queryResult := None\<rparr>"
proof -
  have a: "example_connection ''SELEC 42'' = Inl (Error ''Parser Error: syntax error'')"
    by (simp add: example_connection_def)
  have b: "isInitialized ready_state" by (simp add: ready_state_def)
  note t = executeQuery_failure [of "Some example_connection" "''SELEC 42''"
      "Error ''Parser Error: syntax error''" ready_state]
  from t a have c: "runQuery (Some example_connection) ''SELEC 42''
      = Inl (Error ''Parser Error: syntax error'')" by blast
  from t b c have "executeQuery ready_state (Some example_connection) ''SELEC 42''
       = ready_state\<lparr>isQueryRunning := False,
            error := Some (message (Error ''Parser Error: syntax error'')), queryResult := None\<rparr>"
    by blast
  with a b c show ?thesis by simp
qed

section \<open>Removal of a table\<close>

lemma has_table_filter: "\<not> has_table (filter (\<lambda>(k, tb). k \<noteq> table_key n) eng) n"
  by (auto simp: has_table_def)

lemma lookup_None_iff: "lookup_table eng n = None \<longleftrightarrow> \<not> has_table eng n"
  by (simp add: lookup_table_def has_table_def map_of_eq_None_iff)

lemma map_of_filter_other:
  "k' \<noteq> k \<Longrightarrow> map_of (filter (\<lambda>(j, tb). j \<noteq> k) eng) k' = map_of eng k'"
  by (induction eng) auto

text \<open>
  Claim C5. Removing a name that no record has fails with \<open>NotFoundError\<close>. Removing a
  recorded name asks the engine to drop the table first: if the drop fails, the removal
  fails and no record is deleted. If the table exists and the engine does not refuse, the
  removal succeeds: the engine table is dropped and the record is deleted, every other
  table and record stays, and a query on the removed name fails with the engine's
  table-not-found error.
\<close>

theorem removeTable_drops_then_deletes:
  "(n \<notin> set (map name registry) \<longrightarrow> removeTable registry eng fault n = Inl NotFoundError)
   \<and> (n \<in> set (map name registry) \<and> drop_table eng fault n = Inl e \<longrightarrow>
        removeTable registry eng fault n = Inl (DropFailed e))
   \<and> (n \<in> set (map name registry) \<and> has_table eng n \<and> fault = None \<longrightarrow>
        removeTable registry eng fault n
          = Inr (filter (\<lambda>t. name t \<noteq> n) registry, filter (\<lambda>(k, tb). k \<noteq> table_key n) eng))
   \<and> (removeTable registry eng fault n = Inr (registry', eng') \<longrightarrow>
        drop_table eng fault n = Inr eng' \<and> registry' = filter (\<lambda>t. name t \<noteq> n) registry
        \<and> n \<notin> set (map name registry') \<and> \<not> has_table eng' n
        \<and> select_from eng' n = Inl (table_not_found n)
        \<and> (\<forall>m. table_key m \<noteq> table_key n \<longrightarrow> lookup_table eng' m = lookup_table eng m)
        \<and> (\<forall>r\<in>set registry. name r \<noteq> n \<longrightarrow> r \<in> set registry'))"
proof (intro conjI impI)
  assume r: "removeTable registry eng fault n = Inr (registry', eng')"
  then have d: "drop_table eng fault n = Inr eng'"
    and f: "registry' = filter (\<lambda>t. name t \<noteq> n) registry"
    by (auto simp: removeTable_def split: if_splits sum.splits)
  from d have e: "eng' = filter (\<lambda>(k, tb). k \<noteq> table_key n) eng"
    by (auto simp: drop_table_def split: option.splits if_splits)
  have nt: "\<not> has_table eng' n" unfolding e by (rule has_table_filter)
  show "drop_table eng fault n = Inr eng'" by (rule d)
  show "registry' = filter (\<lambda>t. name t \<noteq> n) registry" by (rule f)
  show "n \<notin> set (map name registry')" using f by auto
  show "\<not> has_table eng' n" by (rule nt)
  show "select_from eng' n = Inl (table_not_found n)"
    using nt lookup_None_iff [of eng' n] by (simp add: select_from_def)
  show "\<forall>m. table_key m \<noteq> table_key n \<longrightarrow> lookup_table eng' m = lookup_table eng m"
    unfolding e by (simp add: lookup_table_def map_of_filter_other)
  show "\<forall>r\<in>set registry. name r \<noteq> n \<longrightarrow> r \<in> set registry'" using f by simp
qed (auto simp: removeTable_def drop_table_def)

theorem removeTable_drops_then_deletes_witness:
  "removeTable (tables two_loaded) two_engine None ''file_csv_other'' = Inl NotFoundError
   \<and> removeTable (tables two_loaded) two_engine (Some (Error ''IO Error: engine busy''))
        ''file_csv_sales''
     = Inl (DropFailed (Error ''IO Error: engine busy''))
   \<and> removeTable (tables two_loaded) two_engine None ''file_csv_sales''
     = Inr ([\<lparr>name = ''file_xlsx_book'', fileType = ''xlsx'', fileName = ''book.xlsx''\<rparr>],
            [(''file_xlsx_book'', \<lparr>tcolumns = [(''a'', ''VARCHAR'')], tdata = []\<rparr>)])
   \<and> select_from [(''file_xlsx_book'', \<lparr>tcolumns = [(''a'', ''VARCHAR'')], tdata = []\<rparr>)]
        ''file_csv_sales'' = Inl (table_not_found ''file_csv_sales'')
   \<and> lookup_table [(''file_xlsx_book'', \<lparr>tcolumns = [(''a'', ''VARCHAR'')], tdata = []\<rparr>)]
        ''file_xlsx_book'' = lookup_table two_engine ''file_xlsx_book''"
  (is "?A \<and> ?B \<and> removeTable ?R ?E None ?N = Inr (?R', ?E') \<and> ?S \<and> ?L")
proof -
  have 1: "''file_csv_other'' \<notin> set (map name ?R)" by code_simp
  have 2: "?N \<in> set (map name ?R)" by code_simp
  have 3: "drop_table ?E (Some (Error ''IO Error: engine busy'')) ?N
             = Inl (Error ''IO Error: engine busy'')" by code_simp
  have 4: "has_table ?E ?N" by code_simp
  have 5: "filter (\<lambda>t. name t \<noteq> ?N) ?R = ?R'" by code_simp
  have 6: "filter (\<lambda>(k, tb). k \<noteq> table_key ?N) ?E = ?E'" by code_simp
  have 7: "table_key ''file_xlsx_book'' \<noteq> table_key ?N" by code_simp
  from removeTable_drops_then_deletes [of "''file_csv_other''" ?R ?E None] 1
  have a: ?A by blast
  from removeTable_drops_then_deletes [of ?N ?R ?E "Some (Error ''IO Error: engine busy'')"
      "Error ''IO Error: engine busy''"] 2 3
  have b: ?B by blast
  from removeTable_drops_then_deletes [of ?N ?R ?E None] 2 4
  have "removeTable ?R ?E None ?N
          = Inr (filter (\<lambda>t. name t \<noteq> ?N) ?R, filter (\<lambda>(k, tb). k \<noteq> table_key ?N) ?E)"
    by blast
  with 5 6 have c: "removeTable ?R ?E None ?N = Inr (?R', ?E')" by (simp only:)
  from removeTable_drops_then_deletes [of ?N ?R ?E None _ ?R' ?E'] c 7
  have d: "?S \<and> ?L" by blast
  from a b c d show ?thesis by blast
qed

section \<open>Engine initialization\<close>




section \<open>The engine model: catalog facts\<close>




lemma array_map_hole: "Hole \<in> set (array_map g xs) \<longleftrightarrow> Hole \<in> set xs"
proof (induction xs)
  case Nil
  show ?case by (simp add: array_map_def)
next
  case (Cons x xs)
  then show ?case by (cases x) (auto simp: array_map_def)
qed



lemma map_of_replace_other:
  "k' \<noteq> k \<Longrightarrow>
   map_of (map (\<lambda>(j, old). if j = k then (j, tb) else (j, old)) eng) k' = map_of eng k'"
  by (induction eng) auto


lemma lookup_store_other:
  "table_key n \<noteq> table_key t \<Longrightarrow> lookup_table (store_table eng t tb) n = lookup_table eng n"
  by (auto simp: lookup_table_def store_table_def map_of_replace_other map_add_def
      split: option.splits)






lemma query_insert_exists:
  "query eng (InsertValues t vals) = Inr (out, eng') \<Longrightarrow> \<exists>tb. lookup_table eng t = Some tb"
  by (auto split: if_splits option.splits)








section \<open>Spreadsheet ingestion\<close>

text \<open>
  Claim C8: a defect of the code. The placeholder of a blank header is built from
  \<^verbatim>\<open>headers.indexOf(header)\<close>, the position of the first header equal to it, not the
  position of the header itself. With two empty headers, at positions 1 and 3, both columns
  are declared \<^verbatim>\<open>column_1\<close>; the engine rejects the table, and no row is inserted.
\<close>

theorem excel_columns_blank_headers_collide:
  "excel_columns (hd two_blank_headers)
     = [Elem (''a'', ''VARCHAR''), Elem (''column_1'', ''VARCHAR''),
        Elem (''c'', ''VARCHAR''), Elem (''column_1'', ''VARCHAR'')]
   \<and> registerFileAsTable (Some []) (workbook ''book.xlsx'' two_blank_headers) ''file_xlsx_book''
     = (Some (Error ''Catalog Error: Column with that name already exists!''), Some [])"
  by code_simp

text \<open>
  A header row with a hole (a position at which the array holds no element) fares no
  better: \<^verbatim>\<open>map\<close> leaves the hole, \<^verbatim>\<open>join\<close> writes it as an empty declaration between two
  commas, and the statement is rejected.
\<close>

lemma excel_columns_hole:
  "excel_columns [Elem (CString ''a''), Hole, Elem (CString ''c'')]
     = [Elem (''a'', ''VARCHAR''), Hole, Elem (''c'', ''VARCHAR'')]
   \<and> join (array_map column_sql (excel_columns [Elem (CString ''a''), Hole, Elem (CString ''c'')])) '', ''
     = [CHR 0x22] @ ''a'' @ [CHR 0x22] @ '' VARCHAR, , '' @ [CHR 0x22] @ ''c'' @ [CHR 0x22] @ '' VARCHAR''
   \<and> query [] (CreateTable ''t'' (excel_columns [Elem (CString ''a''), Hole, Elem (CString ''c'')]))
     = Inl (Error ''Parser Error: syntax error'')"
  by code_simp




section \<open>Columnar-binary fallback\<close>

lemma startsWith_iff: "startsWith s p \<longleftrightarrow> (\<exists>v. s = p @ v)"
  by (induction s p rule: startsWith.induct) auto

lemma includes_str_iff: "includes_str s p \<longleftrightarrow> (\<exists>u v. s = u @ p @ v)"
proof (induction s)
  case Nil
  then show ?case by auto
next
  case (Cons c cs)
  show ?case
  proof
    assume "includes_str (c # cs) p"
    then consider "startsWith (c # cs) p" | "includes_str cs p" by auto
    then show "\<exists>u v. c # cs = u @ p @ v"
    proof cases
      case 1
      then obtain v where "c # cs = p @ v" by (auto simp: startsWith_iff)
      then have "c # cs = [] @ p @ v" by simp
      then show ?thesis by blast
    next
      case 2
      then obtain u v where "cs = u @ p @ v" using Cons.IH by auto
      then have "c # cs = (c # u) @ p @ v" by simp
      then show ?thesis by blast
    qed
  next
    assume "\<exists>u v. c # cs = u @ p @ v"
    then obtain u v where uv: "c # cs = u @ p @ v" by blast
    show "includes_str (c # cs) p"
    proof (cases u)
      case Nil
      with uv have "startsWith (c # cs) p" by (auto simp: startsWith_iff)
      then show ?thesis by simp
    next
      case (Cons a u')
      with uv have "cs = u' @ p @ v" by simp
      then have "includes_str cs p" using Cons.IH by blast
      then show ?thesis by simp
    qed
  qed
qed

text \<open>
  A keyed row has no entry under \<^verbatim>\<open>0\<close> or \<^verbatim>\<open>1\<close>, and the normalization returns it
  with the same entries. So whenever the fallback is entered and \<^verbatim>\<open>DESCRIBE\<close> answers
  with at least one row, the first row throws.
\<close>

lemma convert_describe_row: "convertBigIntValues (describe_row cn ct) = describe_row cn ct"
  by (simp add: describe_row_def set_property_def)

lemma parquet_column_keyed:
  "parquet_column (describe_row cn ct)
     = Inl (Error ''TypeError: Cannot read properties of undefined'')"
proof -
  have d0: "digits 0 = ''0''" and d1: "digits 1 = ''1''"
    by (simp_all add: digits.simps digit_char_def)
  show ?thesis
    by (simp add: parquet_column_def describe_row_def d0 d1)
qed

lemma parquet_fallback_keyed_rows_throw:
  assumes "parquet_describe f = Inr (describe_row cn ct # others)"
  shows "parquet_fallback eng f t
           = (Some (Error ''TypeError: Cannot read properties of undefined''), eng)"
  using assms
  by (simp add: parquet_fallback_def convert_describe_row parquet_column_keyed)

text \<open>
  Claim C2: a defect of the code. The fallback reads \<^verbatim>\<open>row[0]\<close> and \<^verbatim>\<open>row[1]\<close>, but the rows
  of the \<^verbatim>\<open>DESCRIBE\<close> result are keyed by column name, and \<^verbatim>\<open>convertBigIntValues\<close>
  rebuilds them as plain objects with those keys. Both reads give \<^verbatim>\<open>undefined\<close>, the call
  of \<^verbatim>\<open>includes\<close> on it throws, and the ingestion ends with that error before any table is
  created: the engine is left as it was.
\<close>

theorem parquet_fallback_throws_on_keyed_rows:
  "parquet_column (describe_row ''id'' ''BIGINT'')
     = Inl (Error ''TypeError: Cannot read properties of undefined'')
   \<and> query [] (CreateTableAsParquet ''file_parquet_events'' wide_columns)
     = Inl (Error ''Conversion Error: oversized integer'')
   \<and> registerFileAsTable (Some []) wide_columns ''file_parquet_events''
     = (Some (Error ''TypeError: Cannot read properties of undefined''), Some [])"
  by code_simp

text \<open>
  What the rewriting does with a row in the shape the source expects, an array of the
  column name and the declared type: the name is kept, and the type becomes the text type
  exactly when its text contains \<^verbatim>\<open>BIGINT\<close> or \<^verbatim>\<open>HUGEINT\<close> somewhere, which includes
  unsigned and nested types that mention them.
\<close>

lemma parquet_column_positional:
  "parquet_column (JArray (JString cn # JString ct # others))
     = Inr (cn, if (\<exists>u v. ct = u @ ''BIGINT'' @ v) \<or> (\<exists>u v. ct = u @ ''HUGEINT'' @ v)
                then ''VARCHAR'' else ct)"
  by (simp add: parquet_column_def includes_str_iff)

section \<open>Registry and engine\<close>










end
